theory Spec2Isabelle
  imports Complex_Main
begin

section \<open>Errors\<close>

text \<open>
  The C++ sources signal no error of their own inside the codec and the renderer; what can go
  wrong is an exception of a callee or undefined behaviour (a write past the end of a
  \<^verbatim>\<open>std::vector\<close>, \<^verbatim>\<open>front()\<close> of an empty vector, a remainder by zero).
  Each such event is a value of \<open>error\<close>, and a function that can reach one returns
  \<open>error + 'a\<close> with \<open>Inl\<close> for the event.
\<close>

datatype error =
    IndexOutOfBounds
  | ModuloByZero
  | FrontOfEmpty
  | InvalidVertex
  | InvalidWeight

section \<open>Route table and its messages (serialization.cpp)\<close>

text \<open>
  \<^verbatim>\<open>Router::RouteInternalData\<close> is \<^verbatim>\<open>{ Weight weight; std::optional<EdgeId> prev_edge; }\<close>
  and \<^verbatim>\<open>RoutesInternalData\<close> is a vector of vectors of optional entries. The weight
  is a \<^verbatim>\<open>double\<close> that the codec only copies, so it is a type parameter here.
  Edge ids are \<^verbatim>\<open>size_t\<close> values that the codec only copies as well; they are natural
  numbers here, the message's id field (spec 4.4: an unsigned integer) holding each of them.
\<close>

record 'w RouteInternalData =
  weight :: 'w
  prev_edge :: "nat option"

type_synonym 'w RoutesInternalData = "'w RouteInternalData option list list"

text \<open>
  The protobuf messages, as the generated accessors used in serialization.cpp show them
  (the .proto file is not among the sources): \<^verbatim>\<open>Router.route_list\<close> is repeated,
  \<^verbatim>\<open>RouteList.route\<close> is repeated, \<^verbatim>\<open>Route.data\<close> is a message field with presence
  (\<^verbatim>\<open>has_data\<close>), \<^verbatim>\<open>RouteData.prev_edge\<close> is a message field with presence
  (\<^verbatim>\<open>has_prev_edge\<close>) wrapping the scalar \<^verbatim>\<open>EdgeId.id\<close>.
\<close>

record EdgeId_pb =
  pb_id :: nat

record 'w RouteData_pb =
  rd_weight :: 'w
  rd_prev_edge :: "EdgeId_pb option"

record 'w Route_pb =
  route_data :: "'w RouteData_pb option"

record 'w RouteList_pb =
  route :: "'w Route_pb list"

record 'w Router_pb =
  route_list :: "'w RouteList_pb list"

text \<open>Body of the inner loop of \<^verbatim>\<open>Serialize(const Router&)\<close>, lines 250--263.\<close>

definition Serialize_Route :: "'w RouteInternalData option \<Rightarrow> 'w Route_pb" where
  "Serialize_Route r =
     (case r of
        None \<Rightarrow> \<lparr>route_data = None\<rparr>
      | Some rt \<Rightarrow>
          \<lparr>route_data = Some \<lparr>rd_weight = weight rt,
                               rd_prev_edge = (case prev_edge rt of
                                                 None \<Rightarrow> None
                                               | Some e \<Rightarrow> Some \<lparr>pb_id = e\<rparr>)\<rparr>\<rparr>)"

text \<open>\<^verbatim>\<open>Serialize(const Router&)\<close>, lines 243--268: one RouteList per row, one Route per entry.\<close>

definition Serialize_Router :: "'w RoutesInternalData \<Rightarrow> 'w Router_pb" where
  "Serialize_Router routes_internal_data =
     \<lparr>route_list = map (\<lambda>routes. \<lparr>route = map Serialize_Route routes\<rparr>) routes_internal_data\<rparr>"

text \<open>The value built at lines 284--294 from a present \<^verbatim>\<open>RouteData\<close>.\<close>

definition Deserialize_RouteData :: "'w RouteData_pb \<Rightarrow> 'w RouteInternalData" where
  "Deserialize_RouteData route_data_pb =
     \<lparr>weight = rd_weight route_data_pb,
      prev_edge = (case rd_prev_edge route_data_pb of
                     None \<Rightarrow> None
                   | Some e \<Rightarrow> Some (pb_id e))\<rparr>"

text \<open>
  The inner loop of \<^verbatim>\<open>Deserialize(const Router&)\<close>, lines 280--296, from index \<open>to_id\<close> on.
  \<open>row\<close> is \<^verbatim>\<open>data[from_id]\<close>. The assignment \<^verbatim>\<open>data[from_id][to_id] = ...\<close> uses the
  unchecked \<^verbatim>\<open>operator[]\<close>: with \<open>to_id\<close> past the end of the row it is undefined
  behaviour, here \<open>Inl IndexOutOfBounds\<close>. An entry without data is skipped, whatever its index.
\<close>

fun Deserialize_RouteList ::
  "'w Route_pb list \<Rightarrow> nat \<Rightarrow> 'w RouteInternalData option list
     \<Rightarrow> error + 'w RouteInternalData option list" where
  "Deserialize_RouteList [] to_id row = Inr row"
| "Deserialize_RouteList (r # rs) to_id row =
     (case route_data r of
        None \<Rightarrow> Deserialize_RouteList rs (Suc to_id) row
      | Some route_data_pb \<Rightarrow>
          if to_id < length row
          then Deserialize_RouteList rs (Suc to_id) (row[to_id := Some (Deserialize_RouteData route_data_pb)])
          else Inl IndexOutOfBounds)"

text \<open>
  The outer loop, lines 277--297, from index \<open>from_id\<close> on. It runs over the
  \<open>vertex_count = route_list_size()\<close> rows of the message, so \<^verbatim>\<open>data[from_id]\<close> is in range
  whenever \<open>data\<close> has \<open>vertex_count\<close> rows; the check is written out all the same.
\<close>

fun Deserialize_rows ::
  "'w RouteList_pb list \<Rightarrow> nat \<Rightarrow> 'w RoutesInternalData \<Rightarrow> error + 'w RoutesInternalData" where
  "Deserialize_rows [] from_id data = Inr data"
| "Deserialize_rows (rl # rls) from_id data =
     (if from_id < length data
      then (case Deserialize_RouteList (route rl) 0 (data ! from_id) of
              Inl e \<Rightarrow> Inl e
            | Inr row \<Rightarrow> Deserialize_rows rls (Suc from_id) (data[from_id := row]))
      else Inl IndexOutOfBounds)"

text \<open>
  \<^verbatim>\<open>Deserialize(const Router&)\<close>, lines 270--300: a \<open>vertex_count \<times> vertex_count\<close> table of
  absent entries, filled from the message.
\<close>

definition Deserialize_Router :: "'w Router_pb \<Rightarrow> error + 'w RoutesInternalData" where
  "Deserialize_Router object =
     (let vertex_count = length (route_list object);
          data = replicate vertex_count (replicate vertex_count None)
      in Deserialize_rows (route_list object) 0 data)"

text \<open>A route table is square: one row per vertex, one entry per vertex in each row.\<close>

definition square :: "'a list list \<Rightarrow> bool" where
  "square t = list_all (\<lambda>row. length row = length t) t"

text \<open>
  Three auxiliary notions describe what the two loops compute on an arbitrary message:
  the entry a \<^verbatim>\<open>Route\<close> decodes to when its slot was absent before, the slot's content
  after the loop body, and the condition under which no assignment of a row
  falls outside a row of \<open>n\<close> entries.
\<close>

definition decode_entry :: "'w Route_pb \<Rightarrow> 'w RouteInternalData option" where
  "decode_entry r = map_option Deserialize_RouteData (route_data r)"

definition upd_entry ::
  "'w Route_pb \<Rightarrow> 'w RouteInternalData option \<Rightarrow> 'w RouteInternalData option" where
  "upd_entry r old = (case route_data r of None \<Rightarrow> old | Some d \<Rightarrow> Some (Deserialize_RouteData d))"

definition fits :: "nat \<Rightarrow> 'w Route_pb list \<Rightarrow> bool" where
  "fits n rs = list_all (\<lambda>r. route_data r = None) (drop n rs)"

definition decoded_row :: "nat \<Rightarrow> 'w Route_pb list \<Rightarrow> 'w RouteInternalData option list" where
  "decoded_row n rs = map decode_entry (take n rs) @ replicate (n - length rs) None"

section \<open>Graph and its message\<close>

text \<open>
  Modelled from the spec: the graph class \<^verbatim>\<open>graph::DirectedWeightedGraph\<close> (graph.h is not
  among the sources). Spec 3 and 4.1: an edge is \<open>(from, to, weight)\<close> with a dense id given
  in insertion order; the graph is built with its vertex count; \<open>add_edge\<close> appends an edge
  and returns its id, failing with \<open>InvalidVertex\<close> when an endpoint is not below the vertex
  count and with \<open>InvalidWeight\<close> when the weight is negative; \<open>edge(id)\<close>,
  \<open>vertex_count()\<close> and \<open>edge_count()\<close> read. Weights are reals here, so a non-finite
  weight does not arise.
\<close>

record Edge =
  edge_from :: nat
  edge_to :: nat
  edge_weight :: real

record Graph =
  vertex_count :: nat
  edges :: "Edge list"

definition DirectedWeightedGraph :: "nat \<Rightarrow> Graph" where
  "DirectedWeightedGraph n = \<lparr>vertex_count = n, edges = []\<rparr>"

definition GetVertexCount :: "Graph \<Rightarrow> nat" where
  "GetVertexCount graph = vertex_count graph"

definition GetEdgeCount :: "Graph \<Rightarrow> nat" where
  "GetEdgeCount graph = length (edges graph)"

text \<open>Called by the codec only with \<open>edge_id < GetEdgeCount graph\<close> (the loop bound at line 307).\<close>

definition GetEdge :: "Graph \<Rightarrow> nat \<Rightarrow> Edge" where
  "GetEdge graph edge_id = edges graph ! edge_id"

definition AddEdge :: "Graph \<Rightarrow> Edge \<Rightarrow> error + (Graph \<times> nat)" where
  "AddEdge graph edge =
     (if vertex_count graph \<le> edge_from edge \<or> vertex_count graph \<le> edge_to edge then Inl InvalidVertex
      else if edge_weight edge < 0 then Inl InvalidWeight
      else Inr (graph\<lparr>edges := edges graph @ [edge]\<rparr>, length (edges graph)))"

text \<open>The invariant of every graph built with the constructor and \<open>AddEdge\<close>.\<close>

definition graph_wf :: "Graph \<Rightarrow> bool" where
  "graph_wf graph =
     list_all (\<lambda>e. edge_from e < vertex_count graph \<and> edge_to e < vertex_count graph \<and> 0 \<le> edge_weight e)
       (edges graph)"

text \<open>
  The \<^verbatim>\<open>Graph\<close> and \<^verbatim>\<open>Edge\<close> messages, as lines 302--333 use them: a scalar
  \<^verbatim>\<open>vertex_count\<close> and a repeated \<^verbatim>\<open>edge\<close> with scalars \<^verbatim>\<open>from\<close>, \<^verbatim>\<open>to\<close>, \<^verbatim>\<open>weight\<close>
  (spec 4.4: two unsigned integers and a float64).
\<close>

record Edge_pb =
  pb_from :: nat
  pb_to :: nat
  pb_weight :: real

record Graph_pb =
  pb_vertex_count :: nat
  pb_edge :: "Edge_pb list"

text \<open>
  \<^verbatim>\<open>Serialize(const Graph&)\<close>, lines 302--317. \<^verbatim>\<open>SET_X(edge, edge_object, from)\<close> copies the
  field \<^verbatim>\<open>from\<close> of \<^verbatim>\<open>edge\<close> into \<^verbatim>\<open>edge_object\<close> (the macro's definition is in
  serialization.h, not among the sources; its uses fix what it does).
\<close>

definition Serialize_Edge :: "Edge \<Rightarrow> Edge_pb" where
  "Serialize_Edge edge =
     \<lparr>pb_from = edge_from edge, pb_to = edge_to edge, pb_weight = edge_weight edge\<rparr>"

definition Serialize_Graph :: "Graph \<Rightarrow> Graph_pb" where
  "Serialize_Graph graph =
     \<lparr>pb_vertex_count = GetVertexCount graph,
      pb_edge = map (\<lambda>edge_id. Serialize_Edge (GetEdge graph edge_id)) [0..<GetEdgeCount graph]\<rparr>"

text \<open>\<^verbatim>\<open>Deserialize(const Graph&)\<close>, lines 319--333: the loop, then the function.\<close>

fun Deserialize_edges :: "Edge_pb list \<Rightarrow> Graph \<Rightarrow> error + Graph" where
  "Deserialize_edges [] graph = Inr graph"
| "Deserialize_edges (edge # rest) graph =
     (case AddEdge graph \<lparr>edge_from = pb_from edge, edge_to = pb_to edge, edge_weight = pb_weight edge\<rparr> of
        Inl e \<Rightarrow> Inl e
      | Inr (graph', _) \<Rightarrow> Deserialize_edges rest graph')"

definition Deserialize_Graph :: "Graph_pb \<Rightarrow> error + Graph" where
  "Deserialize_Graph object = Deserialize_edges (pb_edge object) (DirectedWeightedGraph (pb_vertex_count object))"

section \<open>Routing settings, TransportRouter, Database\<close>

text \<open>
  Modelled from the spec: \<^verbatim>\<open>transport_catalogue::RoutingSettings\<close> (domain.h is not among the
  sources). Lines 225--241 show its two fields; spec 4.2 and 6 make both reals.
\<close>

record RoutingSettings =
  bus_wait_time :: real
  bus_velocity :: real

record RoutingSettings_pb =
  pb_bus_wait_time :: real
  pb_bus_velocity :: real

definition Serialize_RoutingSettings :: "RoutingSettings \<Rightarrow> RoutingSettings_pb" where
  "Serialize_RoutingSettings routing_settings =
     \<lparr>pb_bus_wait_time = bus_wait_time routing_settings,
      pb_bus_velocity = bus_velocity routing_settings\<rparr>"

definition Deserialize_RoutingSettings :: "RoutingSettings_pb \<Rightarrow> RoutingSettings" where
  "Deserialize_RoutingSettings object =
     \<lparr>bus_wait_time = pb_bus_wait_time object, bus_velocity = pb_bus_velocity object\<rparr>"

text \<open>
  Modelled from the spec: the class \<^verbatim>\<open>transport_catalogue::TransportRouter\<close>
  (transport_router.h is not among the sources). serialization.cpp shows its getters
  \<^verbatim>\<open>GetSettings\<close> and \<^verbatim>\<open>GetRouter\<close>, its member type \<^verbatim>\<open>Graph\<close> and a constructor from
  settings, a saved route table and the catalogue. Spec 2: the builder makes the graph from
  the catalogue and the routing parameters, the router owns the route table, and a router
  can be reconstructed from a saved table without rerunning the precomputation. The
  catalogue is of a type \<open>'cat\<close> left open, and the builder is the parameter \<open>build_graph\<close>,
  which may fail (spec 4.2, \<open>MissingDistance\<close>).
\<close>

record 'cat TransportRouter =
  tr_settings :: RoutingSettings
  tr_graph :: Graph
  tr_router :: "real RoutesInternalData"
  tr_catalogue :: 'cat

definition TransportRouter_from_saved ::
  "(RoutingSettings \<Rightarrow> 'cat \<Rightarrow> error + Graph) \<Rightarrow> RoutingSettings \<Rightarrow> real RoutesInternalData \<Rightarrow> 'cat
     \<Rightarrow> error + 'cat TransportRouter" where
  "TransportRouter_from_saved build_graph settings router_data catalogue =
     (case build_graph settings catalogue of
        Inl e \<Rightarrow> Inl e
      | Inr graph \<Rightarrow>
          Inr \<lparr>tr_settings = settings, tr_graph = graph, tr_router = router_data,
               tr_catalogue = catalogue\<rparr>)"

text \<open>The \<^verbatim>\<open>TransportRouter\<close> message: the two fields lines 140--155 write and read.\<close>

record TransportRouter_pb =
  routing_settings :: RoutingSettings_pb
  router :: "real Router_pb"

text \<open>\<^verbatim>\<open>Serialize(const transport_catalogue::TransportRouter&)\<close>, lines 140--145.\<close>

definition Serialize_TransportRouter :: "'cat TransportRouter \<Rightarrow> TransportRouter_pb" where
  "Serialize_TransportRouter transport_router =
     \<lparr>routing_settings = Serialize_RoutingSettings (tr_settings transport_router),
      router = Serialize_Router (tr_router transport_router)\<rparr>"

text \<open>\<^verbatim>\<open>Deserialize(const TransportRouter&, const TransportCatalogue&)\<close>, lines 147--155.\<close>

definition Deserialize_TransportRouter ::
  "(RoutingSettings \<Rightarrow> 'cat \<Rightarrow> error + Graph) \<Rightarrow> TransportRouter_pb \<Rightarrow> 'cat
     \<Rightarrow> error + 'cat TransportRouter" where
  "Deserialize_TransportRouter build_graph object transport_catalogue =
     (case Deserialize_Router (router object) of
        Inl e \<Rightarrow> Inl e
      | Inr router_data \<Rightarrow>
          TransportRouter_from_saved build_graph
            (Deserialize_RoutingSettings (routing_settings object)) router_data transport_catalogue)"

text \<open>
  The \<^verbatim>\<open>Database\<close> message (lines 15--18 and 30--32) and the result of decoding (lines 34--38).
  The catalogue and renderer messages are of types \<open>'c\<close> and \<open>'m\<close> left open: their decoders
  build objects of classes that are not among the sources, and are parameters below.
\<close>

record ('c, 'm) Database =
  db_transport_catalogue :: 'c
  db_map_renderer :: 'm
  db_transport_router :: TransportRouter_pb

record ('cat, 'ren) DeserializeResult =
  result_catalogue :: 'cat
  result_renderer :: 'ren
  result_router :: "'cat TransportRouter"

text \<open>
  \<^verbatim>\<open>Serialize(catalogue, map_renderer, transport_router, output)\<close>, lines 11--20, up to the call
  of the library's \<^verbatim>\<open>SerializeToOstream\<close>: the database it writes.
\<close>

definition Serialize ::
  "('cat \<Rightarrow> 'c) \<Rightarrow> ('ren \<Rightarrow> 'm) \<Rightarrow> 'cat \<Rightarrow> 'ren \<Rightarrow> 'cat TransportRouter \<Rightarrow> ('c, 'm) Database" where
  "Serialize Serialize_TransportCatalogue Serialize_MapRenderer transport_catalogue map_renderer
       transport_router =
     \<lparr>db_transport_catalogue = Serialize_TransportCatalogue transport_catalogue,
      db_map_renderer = Serialize_MapRenderer map_renderer,
      db_transport_router = Serialize_TransportRouter transport_router\<rparr>"

text \<open>
  \<^verbatim>\<open>Deserialize(istream&)\<close>, lines 22--41. \<open>ParseFromIstream\<close> is the library's parser:
  \<open>None\<close> when the stream does not parse. The function's result is \<open>Inr None\<close> for
  \<^verbatim>\<open>nullopt\<close>, \<open>Inr (Some result)\<close> for a value, and \<open>Inl e\<close> when a callee leaves by
  an exception or by undefined behaviour, in which case nothing is returned.
\<close>

definition Deserialize ::
  "('s \<Rightarrow> ('c, 'm) Database option) \<Rightarrow> ('c \<Rightarrow> error + 'cat) \<Rightarrow> ('m \<Rightarrow> 'ren)
     \<Rightarrow> (RoutingSettings \<Rightarrow> 'cat \<Rightarrow> error + Graph) \<Rightarrow> 's
     \<Rightarrow> error + ('cat, 'ren) DeserializeResult option" where
  "Deserialize ParseFromIstream Deserialize_TransportCatalogue Deserialize_MapRenderer build_graph input =
     (case ParseFromIstream input of
        None \<Rightarrow> Inr None
      | Some database \<Rightarrow>
          (case Deserialize_TransportCatalogue (db_transport_catalogue database) of
             Inl e \<Rightarrow> Inl e
           | Inr transport_catalogue \<Rightarrow>
               (case Deserialize_TransportRouter build_graph (db_transport_router database)
                       transport_catalogue of
                  Inl e \<Rightarrow> Inl e
                | Inr transport_router \<Rightarrow>
                    Inr (Some \<lparr>result_catalogue = transport_catalogue,
                               result_renderer = Deserialize_MapRenderer (db_map_renderer database),
                               result_router = transport_router\<rparr>))))"

text \<open>
  For the concrete instances below: the catalogue without stops and buses is the value of
  type \<open>unit\<close>, and the builder gives it the graph without vertices (spec 4.2: vertices
  are made for the stops that buses refer to).
\<close>

definition empty_network_graph :: "RoutingSettings \<Rightarrow> unit \<Rightarrow> error + Graph" where
  "empty_network_graph settings catalogue = Inr (DirectedWeightedGraph 0)"

section \<open>Map renderer (map_renderer.h)\<close>

text \<open>
  The renderer computes with \<^verbatim>\<open>double\<close>. Its values are of a type \<open>'d\<close> left open, and the
  operations the header uses on them are the fields of a record: the literals \<^verbatim>\<open>0\<close> and
  \<^verbatim>\<open>2\<close> as doubles, the constant \<^verbatim>\<open>EPSILON = 1e-6\<close> (line 38), the four arithmetic
  operators, \<^verbatim>\<open>std::abs\<close>, the comparisons \<^verbatim>\<open><\<close> and \<^verbatim>\<open>==\<close>, and \<^verbatim>\<open>std::isfinite\<close>
  (the last two are not called by the header and serve to state properties). Nothing is
  assumed of them here, so the definitions below follow the header whatever the arithmetic
  does with rounding, infinities and NaN; where a property needs a law of the arithmetic, the
  law is a hypothesis of its own.
\<close>

record 'd double_ops =
  d_zero :: 'd
  d_two :: 'd
  EPSILON :: 'd
  d_add :: "'d \<Rightarrow> 'd \<Rightarrow> 'd"
  d_sub :: "'d \<Rightarrow> 'd \<Rightarrow> 'd"
  d_mul :: "'d \<Rightarrow> 'd \<Rightarrow> 'd"
  d_div :: "'d \<Rightarrow> 'd \<Rightarrow> 'd"
  d_abs :: "'d \<Rightarrow> 'd"
  d_less :: "'d \<Rightarrow> 'd \<Rightarrow> bool"
  d_eq :: "'d \<Rightarrow> 'd \<Rightarrow> bool"
  d_finite :: "'d \<Rightarrow> bool"

text \<open>
  \<^verbatim>\<open>geo::Coordinates\<close> and \<^verbatim>\<open>svg::Point\<close> are declared in geo.h and svg.h (not among the
  sources); their two fields each are those map_renderer.h and serialization.cpp read and write.
\<close>

record 'd Coordinates =
  lat :: 'd
  lng :: 'd

record 'd Point =
  point_x :: 'd
  point_y :: 'd

text \<open>\<^verbatim>\<open>IsZero\<close>, lines 39--41.\<close>

definition IsZero :: "'d double_ops \<Rightarrow> 'd \<Rightarrow> bool" where
  "IsZero ops v = d_less ops (d_abs ops v) (EPSILON ops)"

text \<open>
  \<^verbatim>\<open>std::minmax_element\<close> on a non-empty range \<open>first # rest\<close>: the first smallest and the
  last largest element under \<open>cmp\<close>.
\<close>

definition minmax_step :: "('a \<Rightarrow> 'a \<Rightarrow> bool) \<Rightarrow> 'a \<times> 'a \<Rightarrow> 'a \<Rightarrow> 'a \<times> 'a" where
  "minmax_step cmp mm v =
     (if cmp v (fst mm) then (v, snd mm)
      else if cmp v (snd mm) then mm
      else (fst mm, v))"

definition minmax_element :: "('a \<Rightarrow> 'a \<Rightarrow> bool) \<Rightarrow> 'a \<Rightarrow> 'a list \<Rightarrow> 'a \<times> 'a" where
  "minmax_element cmp first rest = foldl (minmax_step cmp) (first, first) rest"

record 'd SphereProjector =
  sp_padding :: 'd
  min_lon :: 'd
  max_lat :: 'd
  zoom_coeff :: 'd

text \<open>Lines 57--61 and 64--68: \<open>(min_lon, max_lon)\<close> and \<open>(min_lat, max_lat)\<close>.\<close>

definition lon_bounds :: "'d double_ops \<Rightarrow> 'd Coordinates \<Rightarrow> 'd Coordinates list \<Rightarrow> 'd \<times> 'd" where
  "lon_bounds ops first rest =
     (let (left_it, right_it) = minmax_element (\<lambda>lhs rhs. d_less ops (lng lhs) (lng rhs)) first rest
      in (lng left_it, lng right_it))"

definition lat_bounds :: "'d double_ops \<Rightarrow> 'd Coordinates \<Rightarrow> 'd Coordinates list \<Rightarrow> 'd \<times> 'd" where
  "lat_bounds ops first rest =
     (let (bottom_it, top_it) = minmax_element (\<lambda>lhs rhs. d_less ops (lat lhs) (lat rhs)) first rest
      in (lat bottom_it, lat top_it))"

text \<open>
  Lines 71--74 and 77--80, which differ in their operands only: the optional zoom along one
  axis, from the room left by the padding and the spread of the coordinates. The second
  component lists the divisors of the divisions performed, so that "the constructor divides
  by no zero" is a statement about what the constructor does.
\<close>

definition axis_zoom :: "'d double_ops \<Rightarrow> 'd \<Rightarrow> 'd \<Rightarrow> 'd \<Rightarrow> 'd option \<times> 'd list" where
  "axis_zoom ops max_extent pad spread =
     (if \<not> IsZero ops spread
      then (Some (d_div ops (d_sub ops max_extent (d_mul ops (d_two ops) pad)) spread), [spread])
      else (None, []))"

text \<open>
  Lines 82--92; \<^verbatim>\<open>std::min(a, b)\<close> is \<open>b\<close> when \<open>b < a\<close> and \<open>a\<close> otherwise; with neither
  zoom, \<^verbatim>\<open>zoom_coeff_\<close> keeps its initial value 0.
\<close>

definition choose_zoom :: "'d double_ops \<Rightarrow> 'd option \<Rightarrow> 'd option \<Rightarrow> 'd" where
  "choose_zoom ops width_zoom height_zoom =
     (case (width_zoom, height_zoom) of
        (Some w, Some h) \<Rightarrow> (if d_less ops h w then h else w)
      | (Some w, None) \<Rightarrow> w
      | (None, Some h) \<Rightarrow> h
      | (None, None) \<Rightarrow> d_zero ops)"

text \<open>
  The constructor, lines 46--93: the projector it builds, with the divisors of the
  divisions it performed on the way.
\<close>

definition SphereProjector_run ::
  "'d double_ops \<Rightarrow> 'd Coordinates list \<Rightarrow> 'd \<Rightarrow> 'd \<Rightarrow> 'd \<Rightarrow> 'd SphereProjector \<times> 'd list" where
  "SphereProjector_run ops points max_width max_height pad =
     (case points of
        [] \<Rightarrow> (\<lparr>sp_padding = pad, min_lon = d_zero ops, max_lat = d_zero ops,
                zoom_coeff = d_zero ops\<rparr>, [])
      | first # rest \<Rightarrow>
          (let (min_lon', max_lon') = lon_bounds ops first rest;
               (min_lat', max_lat') = lat_bounds ops first rest;
               (width_zoom, width_divisors) = axis_zoom ops max_width pad (d_sub ops max_lon' min_lon');
               (height_zoom, height_divisors) = axis_zoom ops max_height pad (d_sub ops max_lat' min_lat')
           in (\<lparr>sp_padding = pad, min_lon = min_lon', max_lat = max_lat',
                zoom_coeff = choose_zoom ops width_zoom height_zoom\<rparr>,
               width_divisors @ height_divisors)))"

definition SphereProjector ::
  "'d double_ops \<Rightarrow> 'd Coordinates list \<Rightarrow> 'd \<Rightarrow> 'd \<Rightarrow> 'd \<Rightarrow> 'd SphereProjector" where
  "SphereProjector ops points max_width max_height pad =
     fst (SphereProjector_run ops points max_width max_height pad)"


text \<open>\<^verbatim>\<open>operator()\<close>, lines 96--101.\<close>

definition project :: "'d double_ops \<Rightarrow> 'd SphereProjector \<Rightarrow> 'd Coordinates \<Rightarrow> 'd Point" where
  "project ops projector coords =
     \<lparr>point_x = d_add ops (d_mul ops (d_sub ops (lng coords) (min_lon projector)) (zoom_coeff projector))
                 (sp_padding projector),
      point_y = d_add ops (d_mul ops (d_sub ops (max_lat projector) (lat coords)) (zoom_coeff projector))
                 (sp_padding projector)\<rparr>"



text \<open>
  \<^verbatim>\<open>RenderSettings\<close>, lines 17--36. \<^verbatim>\<open>svg::Color\<close> is declared in svg.h; the renderer only
  passes colours on, so it is the type parameter \<open>'color\<close>.
\<close>

record ('d, 'color) RenderSettings =
  width :: 'd
  height :: 'd
  padding :: 'd
  line_width :: 'd
  stop_radius :: 'd
  bus_label_font_size :: int
  bus_label_offset :: "'d Point"
  stop_label_font_size :: int
  stop_label_offset :: "'d Point"
  underlayer_color :: 'color
  underlayer_width :: 'd
  color_palette :: "'color list"

text \<open>
  \<^verbatim>\<open>transport_catalogue::Stop\<close> and \<^verbatim>\<open>Bus\<close> are declared in domain.h; the fields are those
  the two sources use. A \<^verbatim>\<open>StopPtr\<close> is an address, and \<open>heap\<close> below gives the stop at it.
\<close>

record 'd Stop =
  stop_name :: string
  coordinates :: "'d Coordinates"

type_synonym StopPtr = nat

record Bus =
  bus_name :: string
  is_roundtrip :: bool
  stops :: "StopPtr list"

text \<open>
  The member functions defined in map_renderer.cpp and the shapes of svg.h, which are not
  among the sources, as parameters: a document is the list of the objects added to it.
\<close>

record ('d, 'color, 'obj) drawing =
  RenderRouteLine :: "Bus \<Rightarrow> 'color \<Rightarrow> 'd SphereProjector \<Rightarrow> 'obj"
  RenderRouteName :: "'d Point \<Rightarrow> 'color \<Rightarrow> string \<Rightarrow> 'obj list \<Rightarrow> 'obj list"
  RenderStopName :: "'d Point \<Rightarrow> string \<Rightarrow> 'obj list \<Rightarrow> 'obj list"
  Circle :: "'d Point \<Rightarrow> 'd \<Rightarrow> 'obj"

text \<open>
  The first loop of \<^verbatim>\<open>RenderRoutes\<close>, lines 174--184, with \<open>index\<close> the counter and
  \<open>route_names\<close> the texts collected so far. \<^verbatim>\<open>index++ % nums\<close> with \<open>nums = 0\<close> is undefined
  behaviour, and so is \<^verbatim>\<open>front()\<close> of an empty vector. The counter is a \<^verbatim>\<open>size_t\<close>; a range
  of buses in memory is shorter than its modulus, so it is a natural number here.
\<close>

fun RenderRoutes_loop ::
  "'d double_ops \<Rightarrow> ('d, 'color, 'obj) drawing \<Rightarrow> (StopPtr \<Rightarrow> 'd Stop) \<Rightarrow> ('d, 'color) RenderSettings
     \<Rightarrow> 'd SphereProjector \<Rightarrow> nat \<Rightarrow> Bus list \<Rightarrow> 'obj list \<Rightarrow> 'obj list
     \<Rightarrow> error + ('obj list \<times> 'obj list)" where
  "RenderRoutes_loop ops d heap settings projector index [] document route_names =
     Inr (document, route_names)"
| "RenderRoutes_loop ops d heap settings projector index (bus # rest) document route_names =
     (let nums = length (color_palette settings)
      in if nums = 0 then Inl ModuloByZero
         else
           let color = color_palette settings ! (index mod nums);
               document' = document @ [RenderRouteLine d bus color projector]
           in if stops bus = [] then Inl FrontOfEmpty
              else
                let names1 = RenderRouteName d
                               (project ops projector (coordinates (heap (hd (stops bus)))))
                               color (bus_name bus) route_names;
                    names2 = (if \<not> is_roundtrip bus \<and> hd (stops bus) \<noteq> last (stops bus)
                              then RenderRouteName d
                                     (project ops projector (coordinates (heap (last (stops bus)))))
                                     color (bus_name bus) names1
                              else names1)
                in RenderRoutes_loop ops d heap settings projector (Suc index) rest document' names2)"

text \<open>\<^verbatim>\<open>RenderRoutes\<close>, lines 165--189: the loop from index 0, then the names are added.\<close>

definition RenderRoutes ::
  "'d double_ops \<Rightarrow> ('d, 'color, 'obj) drawing \<Rightarrow> (StopPtr \<Rightarrow> 'd Stop) \<Rightarrow> ('d, 'color) RenderSettings
     \<Rightarrow> Bus list \<Rightarrow> 'd SphereProjector \<Rightarrow> 'obj list \<Rightarrow> error + 'obj list" where
  "RenderRoutes ops d heap settings buses projector document =
     (case RenderRoutes_loop ops d heap settings projector 0 buses document [] of
        Inl e \<Rightarrow> Inl e
      | Inr (document', route_names) \<Rightarrow> Inr (document' @ route_names))"

text \<open>\<^verbatim>\<open>RenderStops\<close>, lines 191--208: a circle for every stop, then a name for every stop.\<close>

definition RenderStops ::
  "'d double_ops \<Rightarrow> ('d, 'color, 'obj) drawing \<Rightarrow> (StopPtr \<Rightarrow> 'd Stop) \<Rightarrow> ('d, 'color) RenderSettings
     \<Rightarrow> StopPtr list \<Rightarrow> 'd SphereProjector \<Rightarrow> 'obj list \<Rightarrow> 'obj list" where
  "RenderStops ops d heap settings stop_range projector document =
     (let circles = map (\<lambda>stop. Circle d (project ops projector (coordinates (heap stop)))
                                   (stop_radius settings)) stop_range
      in foldl (\<lambda>doc stop. RenderStopName d (project ops projector (coordinates (heap stop)))
                              (stop_name (heap stop)) doc)
           (document @ circles) stop_range)"

text \<open>
  \<^verbatim>\<open>std::set<StopPtr, StopComparator>\<close>, as the sorted sequence of its elements:
  \<open>set_insert\<close> keeps an element that is equivalent to the new one under the comparator.
  The comparator is declared in domain.h and is the parameter \<open>cmp\<close>.
\<close>

fun set_insert :: "('a \<Rightarrow> 'a \<Rightarrow> bool) \<Rightarrow> 'a \<Rightarrow> 'a list \<Rightarrow> 'a list" where
  "set_insert cmp v [] = [v]"
| "set_insert cmp v (u # us) =
     (if cmp v u then v # u # us
      else if cmp u v then u # set_insert cmp v us
      else u # us)"

text \<open>\<^verbatim>\<open>RenderMap\<close>, lines 135--163.\<close>

definition RenderMap ::
  "'d double_ops \<Rightarrow> ('d, 'color, 'obj) drawing \<Rightarrow> (StopPtr \<Rightarrow> 'd Stop) \<Rightarrow> (StopPtr \<Rightarrow> StopPtr \<Rightarrow> bool)
     \<Rightarrow> ('d, 'color) RenderSettings \<Rightarrow> Bus list \<Rightarrow> error + 'obj list" where
  "RenderMap ops d heap cmp settings buses =
     (let stop_set = foldl (\<lambda>acc bus. foldl (\<lambda>acc' stop. set_insert cmp stop acc') acc (stops bus))
                       [] buses;
          points = map (\<lambda>stop. coordinates (heap stop)) stop_set;
          projector = SphereProjector ops points (width settings) (height settings) (padding settings)
      in case RenderRoutes ops d heap settings buses projector [] of
           Inl e \<Rightarrow> Inl e
         | Inr document \<Rightarrow> Inr (RenderStops ops d heap settings stop_set projector document))"

text \<open>
  The names one bus adds to \<open>route_names\<close> (lines 180--183), to state what
  \<open>RenderRoutes\<close> returns.
\<close>

definition bus_names ::
  "'d double_ops \<Rightarrow> ('d, 'color, 'obj) drawing \<Rightarrow> (StopPtr \<Rightarrow> 'd Stop) \<Rightarrow> 'd SphereProjector \<Rightarrow> 'color \<Rightarrow> Bus
     \<Rightarrow> 'obj list \<Rightarrow> 'obj list" where
  "bus_names ops d heap projector color bus route_names =
     (let names1 = RenderRouteName d (project ops projector (coordinates (heap (hd (stops bus)))))
                     color (bus_name bus) route_names
      in if \<not> is_roundtrip bus \<and> hd (stops bus) \<noteq> last (stops bus)
         then RenderRouteName d (project ops projector (coordinates (heap (last (stops bus)))))
                color (bus_name bus) names1
         else names1)"













section \<open>What the route-table decoder computes\<close>

lemma route_data_Serialize_None: "route_data (Serialize_Route None) = None"
  by (simp add: Serialize_Route_def)

lemma route_data_Serialize_Some:
  "\<exists>d. route_data (Serialize_Route (Some rt)) = Some d \<and> Deserialize_RouteData d = rt"
  by (cases rt) (simp add: Serialize_Route_def Deserialize_RouteData_def split: option.splits)

lemma RouteList_general:
  "Deserialize_RouteList rs k row =
     (if fits (length row - k) rs
      then Inr (take k row @ map2 upd_entry rs (drop k row) @ drop (k + length rs) row)
      else Inl IndexOutOfBounds)"
proof (induction rs arbitrary: k row)
  case Nil
  then show ?case by (simp add: fits_def)
next
  case (Cons r rs)
  show ?case
  proof (cases "route_data r")
    case None
    then have u: "\<And>old. upd_entry r old = old" by (simp add: upd_entry_def)
    have f: "fits (length row - k) (r # rs) = fits (length row - Suc k) rs"
    proof (cases "length row - k")
      case 0
      then show ?thesis using None by (simp add: fits_def)
    next
      case (Suc m)
      then have "length row - Suc k = m" by arith
      then show ?thesis using Suc by (simp add: fits_def)
    qed
    show ?thesis
    proof (cases "k < length row")
      case True
      then show ?thesis using None f
        by (simp add: Cons.IH u take_Suc_conv_app_nth Cons_nth_drop_Suc [symmetric])
    next
      case False
      then show ?thesis using None f
        by (simp add: Cons.IH u)
    qed
  next
    case (Some d)
    then have u: "\<And>old. upd_entry r old = Some (Deserialize_RouteData d)"
      by (simp add: upd_entry_def)
    show ?thesis
    proof (cases "k < length row")
      case True
      then obtain m where m: "length row - k = Suc m" "length row - Suc k = m"
        by (metis Suc_diff_Suc)
      then have f: "fits (length row - k) (r # rs) = fits (length row - Suc k) rs"
        by (simp add: fits_def)
      show ?thesis using Some True f
        by (simp add: Cons.IH u take_Suc_conv_app_nth Cons_nth_drop_Suc [symmetric])
    next
      case False
      then show ?thesis using Some by (simp add: fits_def)
    qed
  qed
qed

lemma map2_replicate: "map2 f xs (replicate n c) = map (\<lambda>x. f x c) (take n xs)"
proof (induction xs arbitrary: n)
  case Nil
  then show ?case by simp
next
  case (Cons x xs)
  then show ?case by (cases n) simp_all
qed

lemma upd_entry_None: "upd_entry r None = decode_entry r"
  by (simp add: upd_entry_def decode_entry_def split: option.splits)

lemma fill_fresh_row:
  "map2 upd_entry rs (replicate n None) @ drop (length rs) (replicate n None) = decoded_row n rs"
  by (simp add: map2_replicate upd_entry_None decoded_row_def)

lemma rows_general:
  "i + length rls \<le> length data \<Longrightarrow> list_all (\<lambda>row. length row = n) data \<Longrightarrow>
   Deserialize_rows rls i data =
     (if list_all (\<lambda>rl. fits n (route rl)) rls
      then Inr (take i data
                @ map2 (\<lambda>rl row. map2 upd_entry (route rl) row @ drop (length (route rl)) row)
                       rls (drop i data)
                @ drop (i + length rls) data)
      else Inl IndexOutOfBounds)"
proof (induction rls arbitrary: i data)
  case Nil
  then show ?case by simp
next
  case (Cons rl rls)
  then have lt: "i < length data" by simp
  then have len: "length (data ! i) = n"
    using Cons.prems(2) by (simp add: list_all_length)
  let ?row = "map2 upd_entry (route rl) (data ! i) @ drop (length (route rl)) (data ! i)"
  have step: "Deserialize_RouteList (route rl) 0 (data ! i) =
        (if fits n (route rl) then Inr ?row else Inl IndexOutOfBounds)"
    by (simp add: RouteList_general len)
  show ?case
  proof (cases "fits n (route rl)")
    case False
    then show ?thesis using lt step by simp
  next
    case True
    have all: "list_all (\<lambda>row. length row = n) (data[i := ?row])"
      using Cons.prems(2) len lt
      by (auto simp: list_all_length nth_list_update)
    have "Deserialize_rows (rl # rls) i data = Deserialize_rows rls (Suc i) (data[i := ?row])"
      using lt step True by simp
    also have "\<dots> = (if list_all (\<lambda>rl. fits n (route rl)) rls
      then Inr (take (Suc i) (data[i := ?row])
                @ map2 (\<lambda>rl row. map2 upd_entry (route rl) row @ drop (length (route rl)) row)
                       rls (drop (Suc i) (data[i := ?row]))
                @ drop (Suc i + length rls) (data[i := ?row]))
      else Inl IndexOutOfBounds)"
      using Cons.prems(1) all by (intro Cons.IH) simp_all
    finally show ?thesis
      using lt True
      by (simp add: take_Suc_conv_app_nth Cons_nth_drop_Suc [symmetric])
  qed
qed

lemma Deserialize_Router_general:
  "Deserialize_Router object =
     (let n = length (route_list object) in
      if list_all (\<lambda>rl. fits n (route rl)) (route_list object)
      then Inr (map (\<lambda>rl. decoded_row n (route rl)) (route_list object))
      else Inl IndexOutOfBounds)"
proof -
  define n where "n = length (route_list object)"
  define fresh :: "'a RouteInternalData option list" where "fresh = replicate n None"
  define F :: "'a RouteList_pb \<Rightarrow> 'a RouteInternalData option list \<Rightarrow> 'a RouteInternalData option list"
    where "F = (\<lambda>rl row. map2 upd_entry (route rl) row @ drop (length (route rl)) row)"
  have F: "F rl fresh = decoded_row n (route rl)" for rl
    unfolding F_def fresh_def by (rule fill_fresh_row)
  have "Deserialize_rows (route_list object) 0 (replicate n fresh) =
     (if list_all (\<lambda>rl. fits n (route rl)) (route_list object)
      then Inr (take 0 (replicate n fresh)
                @ map2 F (route_list object) (drop 0 (replicate n fresh))
                @ drop (0 + length (route_list object)) (replicate n fresh))
      else Inl IndexOutOfBounds)"
    unfolding F_def by (rule rows_general) (simp_all add: list_all_length n_def fresh_def)
  moreover have "take 0 (replicate n fresh)
                @ map2 F (route_list object) (drop 0 (replicate n fresh))
                @ drop (0 + length (route_list object)) (replicate n fresh)
          = map (\<lambda>rl. decoded_row n (route rl)) (route_list object)"
    by (simp add: map2_replicate F n_def)
  ultimately show ?thesis
    by (simp add: Deserialize_Router_def Let_def n_def fresh_def)
qed

lemma Deserialize_Serialize_Router:
  assumes "square t"
  shows "Deserialize_Router (Serialize_Router t) = Inr t"
proof -
  have fit: "fits (length t) (map Serialize_Route row)" if "row \<in> set t" for row
    using assms that by (simp add: fits_def square_def list_all_iff)
  have dec: "decode_entry (Serialize_Route r) = r" for r :: "'a RouteInternalData option"
    using route_data_Serialize_Some [of "the r"]
    by (cases r) (auto simp: decode_entry_def route_data_Serialize_None)
  have row: "decoded_row (length t) (map Serialize_Route row) = row" if "row \<in> set t" for row
    using assms that by (simp add: decoded_row_def square_def list_all_iff dec map_idI)
  show ?thesis
    using fit row
    by (simp add: Deserialize_Router_general Serialize_Router_def list_all_iff o_def map_idI)
qed

lemma decoded_row_nth:
  "to_id < n \<Longrightarrow> to_id < length rs \<Longrightarrow> decoded_row n rs ! to_id = decode_entry (rs ! to_id)"
  by (simp add: decoded_row_def nth_append)



lemma decode_entry_None: "decode_entry r = None \<longleftrightarrow> route_data r = None"
  by (simp add: decode_entry_def)

lemma decode_entry_first_hop:
  "decode_entry r = Some \<lparr>weight = w, prev_edge = None\<rparr>
     \<longleftrightarrow> route_data r = Some \<lparr>rd_weight = w, rd_prev_edge = None\<rparr>"
proof (cases "route_data r")
  case None
  then show ?thesis by (simp add: decode_entry_def)
next
  case (Some d)
  then show ?thesis
    by (cases d) (auto simp: decode_entry_def Deserialize_RouteData_def split: option.splits)
qed

lemma Deserialize_Router_Inr:
  assumes "Deserialize_Router object = Inr t"
  shows "t = map (\<lambda>rl. decoded_row (length (route_list object)) (route rl)) (route_list object)"
    and "list_all (\<lambda>rl. fits (length (route_list object)) (route rl)) (route_list object)"
  using assms by (simp_all add: Deserialize_Router_general Let_def split: if_splits)

section \<open>Round trip of the route table\<close>

text \<open>
  Claim C1. For every route table \<open>t\<close> of a router, that is a square table, decoding the
  encoding of \<open>t\<close> succeeds and gives \<open>t\<close> itself: the same rows, and at every pair the same
  absent entry or the same weight and the same optional predecessor edge.
\<close>

theorem route_table_round_trip:
  assumes "square t"
  shows "Deserialize_Router (Serialize_Router t) = Inr t"
  using assms by (rule Deserialize_Serialize_Router)

theorem route_table_round_trip_witness:
  "square [[Some \<lparr>weight = 0::real, prev_edge = None\<rparr>, Some \<lparr>weight = 31, prev_edge = Some 4\<rparr>],
           [None, Some \<lparr>weight = 0, prev_edge = None\<rparr>]]
   \<and> Deserialize_Router (Serialize_Router
         [[Some \<lparr>weight = 0::real, prev_edge = None\<rparr>, Some \<lparr>weight = 31, prev_edge = Some 4\<rparr>],
          [None, Some \<lparr>weight = 0, prev_edge = None\<rparr>]])
       = Inr [[Some \<lparr>weight = 0::real, prev_edge = None\<rparr>, Some \<lparr>weight = 31, prev_edge = Some 4\<rparr>],
              [None, Some \<lparr>weight = 0, prev_edge = None\<rparr>]]"
proof -
  have sq: "square [[Some \<lparr>weight = 0::real, prev_edge = None\<rparr>, Some \<lparr>weight = 31, prev_edge = Some 4\<rparr>],
           [None, Some \<lparr>weight = 0, prev_edge = None\<rparr>]]"
    by (simp add: square_def)
  show ?thesis using sq route_table_round_trip [OF sq] by simp
qed

text \<open>
  Claim C2. The encoding of an absent entry is a \<^verbatim>\<open>Route\<close> without data, and carries no
  weight at all; the encoding of an entry reached as a first hop is a \<^verbatim>\<open>Route\<close> with data
  whose predecessor is unset. The two differ for every weight, and for every message the
  decoder accepts, the decoded entry is absent exactly when the \<^verbatim>\<open>Route\<close> has no data, and
  is a first-hop entry of weight \<open>w\<close> exactly when the data holds \<open>w\<close> and no predecessor.
\<close>

theorem absent_entry_and_first_hop_kept_apart:
  "Serialize_Route None \<noteq> Serialize_Route (Some \<lparr>weight = w, prev_edge = None\<rparr>)
   \<and> route_data (Serialize_Route (None :: 'w RouteInternalData option)) = None
   \<and> route_data (Serialize_Route (Some \<lparr>weight = w, prev_edge = None\<rparr>))
       = Some \<lparr>rd_weight = w, rd_prev_edge = None\<rparr>
   \<and> (Deserialize_Router object = Inr t \<and> from_id < length (route_list object)
        \<and> to_id < length (route_list object)
        \<and> to_id < length (route (route_list object ! from_id))
      \<longrightarrow> (t ! from_id ! to_id = None
             \<longleftrightarrow> route_data (route (route_list object ! from_id) ! to_id) = None)
          \<and> (t ! from_id ! to_id = Some \<lparr>weight = w, prev_edge = None\<rparr>
             \<longleftrightarrow> route_data (route (route_list object ! from_id) ! to_id)
                   = Some \<lparr>rd_weight = w, rd_prev_edge = None\<rparr>))"
proof (intro conjI impI)
  show "Serialize_Route None \<noteq> Serialize_Route (Some \<lparr>weight = w, prev_edge = None\<rparr>)"
    by (simp add: Serialize_Route_def)
  show "route_data (Serialize_Route (None :: 'w RouteInternalData option)) = None"
    by (simp add: Serialize_Route_def)
  show "route_data (Serialize_Route (Some \<lparr>weight = w, prev_edge = None\<rparr>))
       = Some \<lparr>rd_weight = w, rd_prev_edge = None\<rparr>"
    by (simp add: Serialize_Route_def)
next
  assume a: "Deserialize_Router object = Inr t \<and> from_id < length (route_list object)
        \<and> to_id < length (route_list object)
        \<and> to_id < length (route (route_list object ! from_id))"
  then have "t ! from_id ! to_id = decode_entry (route (route_list object ! from_id) ! to_id)"
    using Deserialize_Router_Inr(1) [of object t] by (simp add: decoded_row_nth)
  then show "t ! from_id ! to_id = None
             \<longleftrightarrow> route_data (route (route_list object ! from_id) ! to_id) = None"
    and "t ! from_id ! to_id = Some \<lparr>weight = w, prev_edge = None\<rparr>
             \<longleftrightarrow> route_data (route (route_list object ! from_id) ! to_id)
                   = Some \<lparr>rd_weight = w, rd_prev_edge = None\<rparr>"
    by (simp_all add: decode_entry_None decode_entry_first_hop)
qed

theorem absent_entry_and_first_hop_kept_apart_witness:
  "Deserialize_Router
       \<lparr>route_list = [\<lparr>route = [\<lparr>route_data = None\<rparr>,
                                 \<lparr>route_data = Some \<lparr>rd_weight = 7::real, rd_prev_edge = None\<rparr>\<rparr>]\<rparr>,
                      \<lparr>route = [\<lparr>route_data = None\<rparr>, \<lparr>route_data = None\<rparr>]\<rparr>]\<rparr>
     = Inr [[None, Some \<lparr>weight = 7, prev_edge = None\<rparr>], [None, None]]
   \<and> Serialize_Route None \<noteq> Serialize_Route (Some \<lparr>weight = 7::real, prev_edge = None\<rparr>)
   \<and> ([[None, Some \<lparr>weight = 7::real, prev_edge = None\<rparr>], [None, None]] ! 0 ! 1
         = Some \<lparr>weight = 7, prev_edge = None\<rparr>)"
  using absent_entry_and_first_hop_kept_apart
    [where w = "7::real" and from_id = 0 and to_id = 1 and object =
        "\<lparr>route_list = [\<lparr>route = [\<lparr>route_data = None\<rparr>,
                                 \<lparr>route_data = Some \<lparr>rd_weight = 7::real, rd_prev_edge = None\<rparr>\<rparr>]\<rparr>,
                      \<lparr>route = [\<lparr>route_data = None\<rparr>, \<lparr>route_data = None\<rparr>]\<rparr>]\<rparr>"
        and t = "[[None, Some \<lparr>weight = 7, prev_edge = None\<rparr>], [None, None]]"]
  by (simp add: Deserialize_Router_def Let_def Deserialize_RouteData_def Serialize_Route_def)

section \<open>Round trip of the graph\<close>

lemma DirectedWeightedGraph_wf: "graph_wf (DirectedWeightedGraph n)"
  by (simp add: graph_wf_def DirectedWeightedGraph_def)

lemma AddEdge_wf:
  "graph_wf graph \<Longrightarrow> AddEdge graph edge = Inr (graph', edge_id) \<Longrightarrow>
   graph_wf graph' \<and> vertex_count graph' = vertex_count graph \<and> edges graph' = edges graph @ [edge]
   \<and> edge_id = length (edges graph)"
  by (auto simp: AddEdge_def graph_wf_def split: if_splits)

lemma pb_edge_Serialize_Graph: "pb_edge (Serialize_Graph graph) = map Serialize_Edge (edges graph)"
proof -
  have "map (\<lambda>edge_id. Serialize_Edge (edges graph ! edge_id)) [0..<length (edges graph)]
        = map Serialize_Edge (map ((!) (edges graph)) [0..<length (edges graph)])"
    by (simp add: o_def)
  then show ?thesis
    by (simp add: Serialize_Graph_def GetEdge_def GetEdgeCount_def map_nth)
qed

lemma Deserialize_edges_Serialize:
  "list_all (\<lambda>e. edge_from e < vertex_count graph \<and> edge_to e < vertex_count graph \<and> 0 \<le> edge_weight e) es \<Longrightarrow>
   Deserialize_edges (map Serialize_Edge es) graph = Inr (graph\<lparr>edges := edges graph @ es\<rparr>)"
proof (induction es arbitrary: graph)
  case Nil
  then show ?case by simp
next
  case (Cons e es)
  have e: "\<lparr>edge_from = pb_from (Serialize_Edge e), edge_to = pb_to (Serialize_Edge e),
            edge_weight = pb_weight (Serialize_Edge e)\<rparr> = e"
    by (simp add: Serialize_Edge_def)
  have add: "AddEdge graph e = Inr (graph\<lparr>edges := edges graph @ [e]\<rparr>, length (edges graph))"
    using Cons.prems by (simp add: AddEdge_def)
  have "Deserialize_edges (map Serialize_Edge (e # es)) graph
        = Deserialize_edges (map Serialize_Edge es) (graph\<lparr>edges := edges graph @ [e]\<rparr>)"
    by (simp add: e add)
  also have "\<dots> = Inr (graph\<lparr>edges := edges graph @ [e]\<rparr>\<lparr>edges := edges (graph\<lparr>edges := edges graph @ [e]\<rparr>) @ es\<rparr>)"
    using Cons.prems by (intro Cons.IH) simp
  finally show ?case by simp
qed

lemma Deserialize_Serialize_Graph:
  assumes "graph_wf graph"
  shows "Deserialize_Graph (Serialize_Graph graph) = Inr graph"
proof -
  have "Deserialize_Graph (Serialize_Graph graph)
        = Deserialize_edges (map Serialize_Edge (edges graph)) (DirectedWeightedGraph (vertex_count graph))"
    by (simp add: Deserialize_Graph_def pb_edge_Serialize_Graph)
       (simp add: Serialize_Graph_def GetVertexCount_def)
  also have "\<dots> = Inr ((DirectedWeightedGraph (vertex_count graph))
                      \<lparr>edges := edges (DirectedWeightedGraph (vertex_count graph)) @ edges graph\<rparr>)"
    using assms by (intro Deserialize_edges_Serialize) (simp add: graph_wf_def DirectedWeightedGraph_def)
  finally show ?thesis by (simp add: DirectedWeightedGraph_def)
qed

text \<open>
  Claim C7. For every graph built with the constructor and \<open>AddEdge\<close> (\<open>graph_wf\<close>),
  the message holds the vertex count and the edges in increasing edge-id order, and decoding
  it re-adds the edges in that order to a graph of that vertex count: the decoded graph has
  the same vertex count, the same edge count and the same edge at every edge id.
\<close>

theorem graph_round_trip:
  assumes "graph_wf graph"
  shows "pb_vertex_count (Serialize_Graph graph) = GetVertexCount graph
       \<and> pb_edge (Serialize_Graph graph)
           = map (\<lambda>edge_id. Serialize_Edge (GetEdge graph edge_id)) [0..<GetEdgeCount graph]
       \<and> (\<exists>graph'. Deserialize_Graph (Serialize_Graph graph) = Inr graph'
            \<and> GetVertexCount graph' = GetVertexCount graph
            \<and> GetEdgeCount graph' = GetEdgeCount graph
            \<and> (\<forall>edge_id < GetEdgeCount graph. GetEdge graph' edge_id = GetEdge graph edge_id)
            \<and> graph' = graph)"
  using Deserialize_Serialize_Graph [OF assms] by (simp add: Serialize_Graph_def)

theorem graph_round_trip_witness:
  "graph_wf \<lparr>vertex_count = 3, edges = [\<lparr>edge_from = 0, edge_to = 1, edge_weight = 31\<rparr>,
                                        \<lparr>edge_from = 1, edge_to = 2, edge_weight = 31\<rparr>,
                                        \<lparr>edge_from = 0, edge_to = 2, edge_weight = 56\<rparr>]\<rparr>
   \<and> Deserialize_Graph (Serialize_Graph
        \<lparr>vertex_count = 3, edges = [\<lparr>edge_from = 0, edge_to = 1, edge_weight = 31\<rparr>,
                                    \<lparr>edge_from = 1, edge_to = 2, edge_weight = 31\<rparr>,
                                    \<lparr>edge_from = 0, edge_to = 2, edge_weight = 56\<rparr>]\<rparr>)
     = Inr \<lparr>vertex_count = 3, edges = [\<lparr>edge_from = 0, edge_to = 1, edge_weight = 31\<rparr>,
                                        \<lparr>edge_from = 1, edge_to = 2, edge_weight = 31\<rparr>,
                                        \<lparr>edge_from = 0, edge_to = 2, edge_weight = 56\<rparr>]\<rparr>"
proof -
  have wf: "graph_wf \<lparr>vertex_count = 3, edges = [\<lparr>edge_from = 0, edge_to = 1, edge_weight = 31\<rparr>,
                                        \<lparr>edge_from = 1, edge_to = 2, edge_weight = 31\<rparr>,
                                        \<lparr>edge_from = 0, edge_to = 2, edge_weight = 56\<rparr>]\<rparr>"
    by (simp add: graph_wf_def)
  show ?thesis using wf graph_round_trip [OF wf] by simp
qed

section \<open>The top-level decoder\<close>

lemma Deserialize_None_iff:
  "Deserialize P dc dm bg input = Inr None \<longleftrightarrow> P input = None"
  by (simp add: Deserialize_def split: option.splits sum.splits)

lemma Deserialize_Some_iff:
  "Deserialize P dc dm bg input = Inr (Some result) \<longleftrightarrow>
     (\<exists>database. P input = Some database
        \<and> dc (db_transport_catalogue database) = Inr (result_catalogue result)
        \<and> result_renderer result = dm (db_map_renderer database)
        \<and> Deserialize_TransportRouter bg (db_transport_router database) (result_catalogue result)
            = Inr (result_router result))"
  by (cases result) (auto simp: Deserialize_def split: option.splits sum.splits)

lemma Deserialize_Inl_iff:
  "Deserialize P dc dm bg input = Inl e \<longleftrightarrow>
     (\<exists>database. P input = Some database
        \<and> (dc (db_transport_catalogue database) = Inl e
           \<or> (\<exists>cat. dc (db_transport_catalogue database) = Inr cat
                \<and> Deserialize_TransportRouter bg (db_transport_router database) cat = Inl e)))"
  by (auto simp: Deserialize_def split: option.splits sum.splits)

lemma Deserialize_TransportRouter_Inr_iff:
  "Deserialize_TransportRouter bg object cat = Inr tr \<longleftrightarrow>
     (\<exists>router_data graph.
        Deserialize_Router (router object) = Inr router_data
        \<and> bg (Deserialize_RoutingSettings (routing_settings object)) cat = Inr graph
        \<and> tr = \<lparr>tr_settings = Deserialize_RoutingSettings (routing_settings object),
                 tr_graph = graph, tr_router = router_data, tr_catalogue = cat\<rparr>)"
  by (auto simp: Deserialize_TransportRouter_def TransportRouter_from_saved_def split: sum.splits)



section \<open>A row longer than the table is wide\<close>

text \<open>
  Claim C5 asks that every stream is either decoded in full or fails with nothing touched.
  The route-table decoder sizes the table by the number of rows and runs the inner loop over
  the entries of the row: on a message of one row with two entries that have data, the second
  assignment (line 291) is \<^verbatim>\<open>data[0][1]\<close> on a row of one element, a write past its end,
  whatever settings, builder and catalogue the router is decoded with.
\<close>

theorem long_row_is_written_out_of_bounds:
  "Deserialize_Router
     \<lparr>route_list = [\<lparr>route = [\<lparr>route_data = Some \<lparr>rd_weight = 1::real, rd_prev_edge = None\<rparr>\<rparr>,
                               \<lparr>route_data = Some \<lparr>rd_weight = 2, rd_prev_edge = None\<rparr>\<rparr>]\<rparr>]\<rparr>
   = Inl IndexOutOfBounds
   \<and> Deserialize_TransportRouter build_graph
       \<lparr>routing_settings = settings,
        router = \<lparr>route_list = [\<lparr>route = [\<lparr>route_data = Some \<lparr>rd_weight = 1, rd_prev_edge = None\<rparr>\<rparr>,
                                          \<lparr>route_data = Some \<lparr>rd_weight = 2, rd_prev_edge = None\<rparr>\<rparr>]\<rparr>]\<rparr>\<rparr>
       transport_catalogue
   = Inl IndexOutOfBounds"
  by (simp add: Deserialize_TransportRouter_def Deserialize_Router_def Let_def)

section \<open>The saved table is adopted\<close>

text \<open>
  Claim C6. Decoding a \<^verbatim>\<open>TransportRouter\<close> message gives the router made of the decoded
  routing settings, the decoded route table as it was saved, the catalogue handed in, and
  the graph the builder makes of them: the table of the result is the saved one whatever
  the graph is, so it is not computed again.
\<close>

theorem saved_table_is_adopted:
  assumes "Deserialize_Router (router object) = Inr router_data"
    and "build_graph (Deserialize_RoutingSettings (routing_settings object)) transport_catalogue = Inr graph"
  shows "Deserialize_TransportRouter build_graph object transport_catalogue
         = Inr \<lparr>tr_settings = Deserialize_RoutingSettings (routing_settings object),
                tr_graph = graph, tr_router = router_data, tr_catalogue = transport_catalogue\<rparr>"
  using assms by (simp add: Deserialize_TransportRouter_Inr_iff)

theorem saved_table_is_adopted_witness:
  "Deserialize_Router
      \<lparr>route_list = [\<lparr>route = [\<lparr>route_data = Some \<lparr>rd_weight = 42, rd_prev_edge = None\<rparr>\<rparr>]\<rparr>]\<rparr>
     = Inr [[Some \<lparr>weight = 42::real, prev_edge = None\<rparr>]]
   \<and> empty_network_graph (Deserialize_RoutingSettings \<lparr>pb_bus_wait_time = 6, pb_bus_velocity = 40\<rparr>) ()
     = Inr (DirectedWeightedGraph 0)
   \<and> Deserialize_TransportRouter empty_network_graph
        \<lparr>routing_settings = \<lparr>pb_bus_wait_time = 6, pb_bus_velocity = 40\<rparr>,
         router = \<lparr>route_list = [\<lparr>route = [\<lparr>route_data = Some \<lparr>rd_weight = 42, rd_prev_edge = None\<rparr>\<rparr>]\<rparr>]\<rparr>\<rparr>
        ()
     = Inr \<lparr>tr_settings = \<lparr>bus_wait_time = 6, bus_velocity = 40\<rparr>,
            tr_graph = DirectedWeightedGraph 0,
            tr_router = [[Some \<lparr>weight = 42, prev_edge = None\<rparr>]],
            tr_catalogue = ()\<rparr>"
proof -
  have r: "Deserialize_Router (router
      \<lparr>routing_settings = \<lparr>pb_bus_wait_time = 6, pb_bus_velocity = 40\<rparr>,
       router = \<lparr>route_list = [\<lparr>route = [\<lparr>route_data = Some \<lparr>rd_weight = 42, rd_prev_edge = None\<rparr>\<rparr>]\<rparr>]\<rparr>\<rparr>)
     = Inr [[Some \<lparr>weight = 42::real, prev_edge = None\<rparr>]]"
    by (simp add: Deserialize_Router_def Deserialize_RouteData_def Let_def)
  have g: "empty_network_graph (Deserialize_RoutingSettings (routing_settings
      \<lparr>routing_settings = \<lparr>pb_bus_wait_time = 6, pb_bus_velocity = 40\<rparr>,
       router = \<lparr>route_list = [\<lparr>route = [\<lparr>route_data = Some \<lparr>rd_weight = 42, rd_prev_edge = None\<rparr>\<rparr>]\<rparr>]\<rparr>\<rparr>)) ()
     = Inr (DirectedWeightedGraph 0)"
    by (simp add: empty_network_graph_def)
  show ?thesis
    using r g saved_table_is_adopted
      [where build_graph = empty_network_graph and transport_catalogue = "()"
         and graph = "DirectedWeightedGraph 0"
         and router_data = "[[Some \<lparr>weight = 42::real, prev_edge = None\<rparr>]]"
         and object = "\<lparr>routing_settings = \<lparr>pb_bus_wait_time = 6, pb_bus_velocity = 40\<rparr>,
       router = \<lparr>route_list = [\<lparr>route = [\<lparr>route_data = Some \<lparr>rd_weight = 42, rd_prev_edge = None\<rparr>\<rparr>]\<rparr>]\<rparr>\<rparr>"]
    by (simp add: Deserialize_RoutingSettings_def)
qed

section \<open>What the TransportRouter section holds\<close>

text \<open>
  Claim C4, as the specification states it, fails: two routers that differ in their graphs
  only, one with an edge and one without, are written as the same message.
\<close>

theorem graph_is_not_written:
  "Serialize_TransportRouter
     \<lparr>tr_settings = \<lparr>bus_wait_time = 6, bus_velocity = 40\<rparr>,
      tr_graph = \<lparr>vertex_count = 2, edges = [\<lparr>edge_from = 0, edge_to = 1, edge_weight = 31\<rparr>]\<rparr>,
      tr_router = [[None, Some \<lparr>weight = 31, prev_edge = None\<rparr>], [None, None]],
      tr_catalogue = ()\<rparr>
   = Serialize_TransportRouter
     \<lparr>tr_settings = \<lparr>bus_wait_time = 6, bus_velocity = 40\<rparr>,
      tr_graph = \<lparr>vertex_count = 2, edges = []\<rparr>,
      tr_router = [[None, Some \<lparr>weight = 31, prev_edge = None\<rparr>], [None, None]],
      tr_catalogue = ()\<rparr>
   \<and> \<lparr>vertex_count = 2, edges = [\<lparr>edge_from = 0, edge_to = 1, edge_weight = 31\<rparr>]\<rparr>
     \<noteq> \<lparr>vertex_count = 2, edges = []\<rparr>"
  by (simp add: Serialize_TransportRouter_def)

text \<open>
  Claim C4, amended. The \<^verbatim>\<open>TransportRouter\<close> section of the blob is made of the routing
  settings and the route table, both of which decoding restores, and is the same whatever the
  router's graph is; so is the whole database. The graph of a decoded router is the one
  the builder makes of the decoded catalogue and settings.
\<close>

theorem blob_holds_settings_and_table:
  "Serialize_TransportRouter (transport_router\<lparr>tr_graph := graph\<rparr>)
     = Serialize_TransportRouter transport_router
   \<and> Serialize sc sm transport_catalogue map_renderer (transport_router\<lparr>tr_graph := graph\<rparr>)
     = Serialize sc sm transport_catalogue map_renderer transport_router
   \<and> db_transport_router (Serialize sc sm transport_catalogue map_renderer transport_router)
     = Serialize_TransportRouter transport_router
   \<and> Deserialize_RoutingSettings (routing_settings (Serialize_TransportRouter transport_router))
     = tr_settings transport_router
   \<and> (square (tr_router transport_router) \<longrightarrow>
        Deserialize_Router (router (Serialize_TransportRouter transport_router))
          = Inr (tr_router transport_router))
   \<and> (square (tr_router transport_router)
        \<and> build_graph (tr_settings transport_router) catalogue' = Inr graph' \<longrightarrow>
        Deserialize_TransportRouter build_graph (Serialize_TransportRouter transport_router) catalogue'
          = Inr \<lparr>tr_settings = tr_settings transport_router, tr_graph = graph',
                 tr_router = tr_router transport_router, tr_catalogue = catalogue'\<rparr>)"
proof -
  have s: "Deserialize_RoutingSettings (routing_settings (Serialize_TransportRouter transport_router))
     = tr_settings transport_router"
    by (simp add: Serialize_TransportRouter_def Deserialize_RoutingSettings_def
        Serialize_RoutingSettings_def)
  have r: "Deserialize_Router (router (Serialize_TransportRouter transport_router))
          = Inr (tr_router transport_router)" if "square (tr_router transport_router)"
    using that by (simp add: Serialize_TransportRouter_def Deserialize_Serialize_Router)
  show ?thesis
    using s r
    by (simp add: Deserialize_TransportRouter_Inr_iff)
       (simp add: Serialize_TransportRouter_def Serialize_def)
qed

theorem blob_holds_settings_and_table_witness:
  "square [[None, Some \<lparr>weight = 31::real, prev_edge = None\<rparr>], [None, None]]
   \<and> Deserialize_TransportRouter empty_network_graph
       (Serialize_TransportRouter
         \<lparr>tr_settings = \<lparr>bus_wait_time = 6, bus_velocity = 40\<rparr>,
          tr_graph = \<lparr>vertex_count = 2, edges = [\<lparr>edge_from = 0, edge_to = 1, edge_weight = 31\<rparr>]\<rparr>,
          tr_router = [[None, Some \<lparr>weight = 31, prev_edge = None\<rparr>], [None, None]],
          tr_catalogue = ()\<rparr>) ()
     = Inr \<lparr>tr_settings = \<lparr>bus_wait_time = 6, bus_velocity = 40\<rparr>,
            tr_graph = DirectedWeightedGraph 0,
            tr_router = [[None, Some \<lparr>weight = 31, prev_edge = None\<rparr>], [None, None]],
            tr_catalogue = ()\<rparr>"
  using blob_holds_settings_and_table
    [where transport_router =
       "\<lparr>tr_settings = \<lparr>bus_wait_time = 6, bus_velocity = 40\<rparr>,
          tr_graph = \<lparr>vertex_count = 2, edges = [\<lparr>edge_from = 0, edge_to = 1, edge_weight = 31\<rparr>]\<rparr>,
          tr_router = [[None, Some \<lparr>weight = 31, prev_edge = None\<rparr>], [None, None]],
          tr_catalogue = ()\<rparr>"
      and build_graph = empty_network_graph and catalogue' = "()"
      and graph' = "DirectedWeightedGraph 0" and graph = "DirectedWeightedGraph 0"
      and sc = id and sm = id and transport_catalogue = "()" and map_renderer = "()"]
  by (simp add: square_def empty_network_graph_def)

section \<open>Entries the stream does not supply\<close>




section \<open>The projector divides behind its check\<close>















section \<open>Colours of the routes\<close>

lemma RenderRoutes_loop_empty_palette:
  "color_palette settings = [] \<Longrightarrow> buses \<noteq> [] \<Longrightarrow>
   RenderRoutes_loop ops d heap settings projector index buses document route_names = Inl ModuloByZero"
  by (cases buses) simp_all

lemma RenderRoutes_loop_colours:
  assumes "color_palette settings \<noteq> []" and "list_all (\<lambda>bus. stops bus \<noteq> []) buses"
  shows "RenderRoutes_loop ops d heap settings projector index buses document route_names =
     Inr (document
            @ map (\<lambda>(n, bus). RenderRouteLine d bus
                      (color_palette settings ! (n mod length (color_palette settings))) projector)
                (enumerate index buses),
          foldl (\<lambda>names (n, bus). bus_names ops d heap projector
                      (color_palette settings ! (n mod length (color_palette settings))) bus names)
            route_names (enumerate index buses))"
  using assms(2)
proof (induction buses arbitrary: index document route_names)
  case Nil
  then show ?case by simp
next
  case (Cons bus rest)
  let ?color = "color_palette settings ! (index mod length (color_palette settings))"
  have st: "stops bus \<noteq> []" and rest: "list_all (\<lambda>bus. stops bus \<noteq> []) rest"
    using Cons.prems by simp_all
  have step: "RenderRoutes_loop ops d heap settings projector index (bus # rest) document route_names
        = RenderRoutes_loop ops d heap settings projector (Suc index) rest
            (document @ [RenderRouteLine d bus ?color projector])
            (bus_names ops d heap projector ?color bus route_names)"
    using assms(1) st by (simp add: Let_def bus_names_def)
  show ?case
    unfolding step Cons.IH [OF rest] by simp
qed

lemma RenderRoutes_empty_palette:
  "color_palette settings = [] \<Longrightarrow> buses \<noteq> [] \<Longrightarrow>
   RenderRoutes ops d heap settings buses projector document = Inl ModuloByZero"
  by (simp add: RenderRoutes_def RenderRoutes_loop_empty_palette)

lemma RenderRoutes_colours:
  assumes "color_palette settings \<noteq> []" and "list_all (\<lambda>bus. stops bus \<noteq> []) buses"
  shows "RenderRoutes ops d heap settings buses projector document =
     Inr (document
            @ map (\<lambda>(n, bus). RenderRouteLine d bus
                      (color_palette settings ! (n mod length (color_palette settings))) projector)
                (enumerate 0 buses)
            @ foldl (\<lambda>names (n, bus). bus_names ops d heap projector
                      (color_palette settings ! (n mod length (color_palette settings))) bus names)
                [] (enumerate 0 buses))"
  by (simp add: RenderRoutes_def RenderRoutes_loop_colours [OF assms])

lemma RenderMap_empty_palette:
  assumes "color_palette settings = []" and "buses \<noteq> []"
  shows "RenderMap ops d heap cmp settings buses = Inl ModuloByZero"
  using assms by (simp add: RenderMap_def Let_def RenderRoutes_empty_palette)

lemma RenderMap_total:
  assumes "color_palette settings \<noteq> []" and "list_all (\<lambda>bus. stops bus \<noteq> []) buses"
  shows "\<exists>document. RenderMap ops d heap cmp settings buses = Inr document"
  by (simp add: RenderMap_def Let_def RenderRoutes_colours [OF assms])

lemma index_in_range_iff: "(\<forall>n. n mod length palette < length palette) \<longleftrightarrow> palette \<noteq> []"
  by auto

text \<open>
  Claim C10. With a non-empty palette (and buses that have stops, so that \<^verbatim>\<open>front()\<close> is
  defined) \<open>RenderRoutes\<close> draws the \<open>n\<close>-th bus, counted from 0 in iteration order, in
  the colour \<open>color_palette[n mod palette_size]\<close>, the line and the names alike. The index is
  in range for every \<open>n\<close> exactly when the palette is non-empty. With an empty palette and
  at least one bus the index computation is a remainder by zero, in \<open>RenderRoutes\<close> and
  so in \<open>RenderMap\<close>; with no bus the palette is not read.
\<close>

theorem route_colours_cycle_through_palette:
  "(color_palette settings \<noteq> [] \<and> list_all (\<lambda>bus. stops bus \<noteq> []) buses \<longrightarrow>
      RenderRoutes ops d heap settings buses projector document =
        Inr (document
               @ map (\<lambda>(n, bus). RenderRouteLine d bus
                         (color_palette settings ! (n mod length (color_palette settings))) projector)
                   (enumerate 0 buses)
               @ foldl (\<lambda>names (n, bus). bus_names ops d heap projector
                         (color_palette settings ! (n mod length (color_palette settings))) bus names)
                   [] (enumerate 0 buses))
      \<and> (\<exists>drawn. RenderMap ops d heap cmp settings buses = Inr drawn))
   \<and> ((\<forall>n. n mod length (color_palette settings) < length (color_palette settings))
        \<longleftrightarrow> color_palette settings \<noteq> [])
   \<and> (color_palette settings = [] \<and> buses \<noteq> [] \<longrightarrow>
        RenderRoutes ops d heap settings buses projector document = Inl ModuloByZero
        \<and> RenderMap ops d heap cmp settings buses = Inl ModuloByZero)
   \<and> RenderRoutes ops d heap settings [] projector document = Inr document"
proof (intro conjI impI)
  show "(\<forall>n. n mod length (color_palette settings) < length (color_palette settings))
        \<longleftrightarrow> color_palette settings \<noteq> []"
    by (rule index_in_range_iff)
  show "RenderRoutes ops d heap settings [] projector document = Inr document"
    by (simp add: RenderRoutes_def)
next
  assume a: "color_palette settings \<noteq> [] \<and> list_all (\<lambda>bus. stops bus \<noteq> []) buses"
  then show "RenderRoutes ops d heap settings buses projector document =
        Inr (document
               @ map (\<lambda>(n, bus). RenderRouteLine d bus
                         (color_palette settings ! (n mod length (color_palette settings))) projector)
                   (enumerate 0 buses)
               @ foldl (\<lambda>names (n, bus). bus_names ops d heap projector
                         (color_palette settings ! (n mod length (color_palette settings))) bus names)
                   [] (enumerate 0 buses))"
    by (simp add: RenderRoutes_colours)
  from a show "\<exists>drawn. RenderMap ops d heap cmp settings buses = Inr drawn"
    by (simp add: RenderMap_total)
next
  assume a: "color_palette settings = [] \<and> buses \<noteq> []"
  then show "RenderRoutes ops d heap settings buses projector document = Inl ModuloByZero"
    by (simp add: RenderRoutes_empty_palette)
  from a show "RenderMap ops d heap cmp settings buses = Inl ModuloByZero"
    by (simp add: RenderMap_empty_palette)
qed

theorem route_colours_cycle_through_palette_witness:
  "RenderRoutes
     \<lparr>d_zero = 0::real, d_two = 2, EPSILON = 1 / 1000000, d_add = (+), d_sub = (-), d_mul = (*),
      d_div = (/), d_abs = abs, d_less = (<), d_eq = (=), d_finite = (\<lambda>v. True)\<rparr>
     \<lparr>RenderRouteLine = (\<lambda>bus color projector. color),
      RenderRouteName = (\<lambda>position color name texts. texts @ [color]),
      RenderStopName = (\<lambda>position name document. document),
      Circle = (\<lambda>center radius. 0)\<rparr>
     (\<lambda>stop. \<lparr>stop_name = ''A'', coordinates = \<lparr>lat = 55, lng = 37\<rparr>\<rparr>)
     \<lparr>width = 600, height = 400, padding = 50, line_width = 14, stop_radius = 5,
      bus_label_font_size = 20, bus_label_offset = \<lparr>point_x = 7, point_y = 15\<rparr>,
      stop_label_font_size = 20, stop_label_offset = \<lparr>point_x = 7, point_y = -3\<rparr>,
      underlayer_color = 0, underlayer_width = 3, color_palette = [10, 20::nat]\<rparr>
     [\<lparr>bus_name = ''14'', is_roundtrip = True, stops = [0]\<rparr>,
      \<lparr>bus_name = ''22'', is_roundtrip = True, stops = [0]\<rparr>,
      \<lparr>bus_name = ''31'', is_roundtrip = True, stops = [0]\<rparr>]
     \<lparr>sp_padding = 50, min_lon = 37, max_lat = 55, zoom_coeff = 0\<rparr>
     []
   = Inr [10, 20, 10, 10, 20, 10]
   \<and> RenderMap
     \<lparr>d_zero = 0::real, d_two = 2, EPSILON = 1 / 1000000, d_add = (+), d_sub = (-), d_mul = (*),
      d_div = (/), d_abs = abs, d_less = (<), d_eq = (=), d_finite = (\<lambda>v. True)\<rparr>
     \<lparr>RenderRouteLine = (\<lambda>bus color projector. color),
      RenderRouteName = (\<lambda>position color name texts. texts @ [color]),
      RenderStopName = (\<lambda>position name document. document),
      Circle = (\<lambda>center radius. 0)\<rparr>
     (\<lambda>stop. \<lparr>stop_name = ''A'', coordinates = \<lparr>lat = 55, lng = 37\<rparr>\<rparr>)
     (<)
     \<lparr>width = 600, height = 400, padding = 50, line_width = 14, stop_radius = 5,
      bus_label_font_size = 20, bus_label_offset = \<lparr>point_x = 7, point_y = 15\<rparr>,
      stop_label_font_size = 20, stop_label_offset = \<lparr>point_x = 7, point_y = -3\<rparr>,
      underlayer_color = 0, underlayer_width = 3, color_palette = [] :: nat list\<rparr>
     [\<lparr>bus_name = ''14'', is_roundtrip = True, stops = [0]\<rparr>]
   = Inl ModuloByZero"
  using route_colours_cycle_through_palette
    [where ops = "\<lparr>d_zero = 0::real, d_two = 2, EPSILON = 1 / 1000000, d_add = (+), d_sub = (-), d_mul = (*),
      d_div = (/), d_abs = abs, d_less = (<), d_eq = (=), d_finite = (\<lambda>v. True)\<rparr>"
     and d = "\<lparr>RenderRouteLine = (\<lambda>bus color projector. color),
      RenderRouteName = (\<lambda>position color name texts. texts @ [color]),
      RenderStopName = (\<lambda>position name document. document),
      Circle = (\<lambda>center radius. 0)\<rparr>"
     and heap = "\<lambda>stop. \<lparr>stop_name = ''A'', coordinates = \<lparr>lat = 55, lng = 37\<rparr>\<rparr>"
     and settings = "\<lparr>width = 600, height = 400, padding = 50, line_width = 14, stop_radius = 5,
      bus_label_font_size = 20, bus_label_offset = \<lparr>point_x = 7, point_y = 15\<rparr>,
      stop_label_font_size = 20, stop_label_offset = \<lparr>point_x = 7, point_y = -3\<rparr>,
      underlayer_color = 0, underlayer_width = 3, color_palette = [10, 20::nat]\<rparr>"
     and buses = "[\<lparr>bus_name = ''14'', is_roundtrip = True, stops = [0]\<rparr>,
      \<lparr>bus_name = ''22'', is_roundtrip = True, stops = [0]\<rparr>,
      \<lparr>bus_name = ''31'', is_roundtrip = True, stops = [0]\<rparr>]"
     and projector = "\<lparr>sp_padding = 50, min_lon = 37, max_lat = 55, zoom_coeff = 0\<rparr>"
     and document = "[]" and cmp = "(<)"]
    route_colours_cycle_through_palette
    [where ops = "\<lparr>d_zero = 0::real, d_two = 2, EPSILON = 1 / 1000000, d_add = (+), d_sub = (-), d_mul = (*),
      d_div = (/), d_abs = abs, d_less = (<), d_eq = (=), d_finite = (\<lambda>v. True)\<rparr>"
     and d = "\<lparr>RenderRouteLine = (\<lambda>bus color projector. color),
      RenderRouteName = (\<lambda>position color name texts. texts @ [color]),
      RenderStopName = (\<lambda>position name document. document),
      Circle = (\<lambda>center radius. 0)\<rparr>"
     and heap = "\<lambda>stop. \<lparr>stop_name = ''A'', coordinates = \<lparr>lat = 55, lng = 37\<rparr>\<rparr>"
     and settings = "\<lparr>width = 600, height = 400, padding = 50, line_width = 14, stop_radius = 5,
      bus_label_font_size = 20, bus_label_offset = \<lparr>point_x = 7, point_y = 15\<rparr>,
      stop_label_font_size = 20, stop_label_offset = \<lparr>point_x = 7, point_y = -3\<rparr>,
      underlayer_color = 0, underlayer_width = 3, color_palette = [] :: nat list\<rparr>"
     and buses = "[\<lparr>bus_name = ''14'', is_roundtrip = True, stops = [0]\<rparr>]"
     and projector = "\<lparr>sp_padding = 50, min_lon = 37, max_lat = 55, zoom_coeff = 0\<rparr>"
     and document = "[]" and cmp = "(<)"]
  by (simp add: bus_names_def enumerate_eq_zip)

end
